theory Spec2Isabelle
  imports Main "HOL-Library.Word"
begin

section \<open>Data model\<close>

text \<open>
  A JavaScript string is a sequence of 16-bit code units: \<open>charCodeAt\<close> reads one of
  them, \<open>length\<close> counts them. An \<open>ArrayBuffer\<close> seen through a \<open>Uint8Array\<close> is a
  sequence of 8-bit unsigned values.
\<close>

type_synonym byte = "8 word"
type_synonym code_unit = "16 word"
type_synonym jsstring = "code_unit list"

text \<open>A string literal of the source, as code units.\<close>

definition js :: "string \<Rightarrow> jsstring" where
  "js s = map of_char s"

text \<open>
  Storing a number into a \<open>Uint8Array\<close> element keeps it modulo 256 (the low eight
  bits); \<open>String.fromCharCode\<close> of a byte is the code unit with the same value.
\<close>

definition toUint8 :: "code_unit \<Rightarrow> byte" where
  "toUint8 c = ucast c"

definition fromCharCode :: "byte \<Rightarrow> code_unit" where
  "fromCharCode b = ucast b"

text \<open>A binary string: every code unit is in 0..255.\<close>

definition is_binary_string :: "jsstring \<Rightarrow> bool" where
  "is_binary_string s = list_all (\<lambda>c. unat c \<le> 255) s"

section \<open>Byte codec\<close>

text \<open>
  \<open>binaryStringToArrayBuffer\<close>: a zero-filled buffer of \<open>binary.length\<close> bytes, then
  \<^verbatim>\<open>i = -1; while (++i < length) arr[i] = binary.charCodeAt(i)\<close>.
  The loop index of the model is the value of \<open>i\<close> after the increment.
\<close>

function b2ab_loop :: "jsstring \<Rightarrow> nat \<Rightarrow> byte list \<Rightarrow> byte list" where
  "b2ab_loop binary i arr =
     (if i < length binary
      then b2ab_loop binary (Suc i) (arr[i := toUint8 (binary ! i)])
      else arr)"
  by pat_completeness auto
termination
  by (relation "measure (\<lambda>(binary, i, arr). length binary - i)") auto

declare b2ab_loop.simps [simp del]

definition binaryStringToArrayBuffer :: "jsstring \<Rightarrow> byte list" where
  "binaryStringToArrayBuffer binary = b2ab_loop binary 0 (replicate (length binary) 0)"

text \<open>
  \<open>arrayBufferToBinaryString\<close>: starting from the empty string,
  \<^verbatim>\<open>while (++i < length) binary += String.fromCharCode(bytes[i])\<close>.
\<close>

function ab2bs_loop :: "byte list \<Rightarrow> nat \<Rightarrow> jsstring \<Rightarrow> jsstring" where
  "ab2bs_loop buffer i binary =
     (if i < length buffer
      then ab2bs_loop buffer (Suc i) (binary @ [fromCharCode (buffer ! i)])
      else binary)"
  by pat_completeness auto
termination
  by (relation "measure (\<lambda>(buffer, i, binary). length buffer - i)") auto

declare ab2bs_loop.simps [simp del]

definition arrayBufferToBinaryString :: "byte list \<Rightarrow> jsstring" where
  "arrayBufferToBinaryString buffer = ab2bs_loop buffer 0 []"

section \<open>Errors, binary objects and the host environment\<close>

text \<open>
  A thrown value is an error object; the source inspects only its \<open>name\<close>
  (\<^verbatim>\<open>e.name !== 'TypeError'\<close>).
\<close>

record js_error =
  name :: string
  message :: string

text \<open>A \<open>Blob\<close>: its content-type tag and its byte content.\<close>

record jsblob =
  type :: jsstring
  bytes :: "byte list"

text \<open>The parts handed to \<open>createBlob\<close>: byte buffers or strings.\<close>

datatype part = BufferPart "byte list" | StringPart jsstring

text \<open>
  The second argument of \<open>createBlob\<close>: missing, a string (the content-type
  shorthand), or an object whose \<open>type\<close> field may be missing.
\<close>

datatype blob_properties = Undefined | TypeString jsstring | Properties "jsstring option"

text \<open>
  A legacy builder class (\<open>BlobBuilder\<close> and its prefixed variants) is a host capability:
  \<open>new Builder()\<close>, \<open>builder.append(part)\<close> and \<open>builder.getBlob(type)\<close>, over a builder
  state \<open>'s\<close>. Each may throw.
\<close>

record 's blob_builder =
  construct :: "js_error + 's"
  append :: "'s \<Rightarrow> part \<Rightarrow> js_error + 's"
  getBlob :: "'s \<Rightarrow> jsstring option \<Rightarrow> js_error + jsblob"

text \<open>
  The events a \<open>FileReader\<close> fires during one read. A \<open>loadend\<close> event shows the handler
  \<open>e.target.result\<close>, which is absent (\<open>null\<close>) unless the read succeeded; an \<open>error\<close> event
  carries the reader's error.
\<close>

datatype 'r reader_event =
  EvLoadStart | EvProgress | EvLoad | EvAbort | EvError js_error | EvLoadEnd "'r option"

text \<open>
  The host environment, as far as the source probes it. A global that is not declared
  is \<open>None\<close>: \<open>Blob\<close> (whose constructor may throw), the four builder classes tested with
  \<open>typeof\<close>, and \<open>FileReader.prototype.readAsBinaryString\<close>. A read is given by the
  events the host fires for it. \<open>FileReader\<close>, \<open>Promise\<close>, \<open>atob\<close> and \<open>btoa\<close> are used by
  the source without a probe and are taken to exist.
\<close>

record 's env =
  Blob :: "(part list \<Rightarrow> jsstring option \<Rightarrow> js_error + jsblob) option"
  BlobBuilder :: "'s blob_builder option"
  MSBlobBuilder :: "'s blob_builder option"
  MozBlobBuilder :: "'s blob_builder option"
  WebKitBlobBuilder :: "'s blob_builder option"
  readAsBinaryString :: "(jsblob \<Rightarrow> jsstring reader_event list) option"
  readAsArrayBuffer :: "jsblob \<Rightarrow> byte list reader_event list"

section \<open>The host's base64 codec\<close>

text \<open>
  \<open>btoa\<close> and \<open>atob\<close> are host functions. They are modelled after the HTML standard:
  \<open>btoa\<close> rejects a string with a code unit above 255 and otherwise gives the padded
  base64 text of its bytes; \<open>atob\<close> is the forgiving base64 decoder (ASCII whitespace
  removed, one or two trailing \<open>=\<close> removed when the length is a multiple of four,
  failure on a length of 1 modulo 4 or on any character outside the alphabet).
\<close>

definition padding_char :: code_unit where
  "padding_char = 61"

definition b64_char :: "nat \<Rightarrow> code_unit" where
  "b64_char n =
     (if n < 26 then of_nat (n + 65)
      else if n < 52 then of_nat (n + 71)
      else if n < 62 then of_nat (n - 4)
      else if n = 62 then 43 else 47)"

definition b64_index :: "code_unit \<Rightarrow> nat option" where
  "b64_index c =
     (let u = unat c in
      if 65 \<le> u \<and> u \<le> 90 then Some (u - 65)
      else if 97 \<le> u \<and> u \<le> 122 then Some (u - 71)
      else if 48 \<le> u \<and> u \<le> 57 then Some (u + 4)
      else if u = 43 then Some 62
      else if u = 47 then Some 63
      else None)"

fun base64_encode :: "byte list \<Rightarrow> jsstring" where
  "base64_encode (a # b # c # rest) =
     [b64_char (unat a div 4),
      b64_char (unat a mod 4 * 16 + unat b div 16),
      b64_char (unat b mod 16 * 4 + unat c div 64),
      b64_char (unat c mod 64)] @ base64_encode rest"
| "base64_encode [a, b] =
     [b64_char (unat a div 4),
      b64_char (unat a mod 4 * 16 + unat b div 16),
      b64_char (unat b mod 16 * 4),
      padding_char]"
| "base64_encode [a] =
     [b64_char (unat a div 4), b64_char (unat a mod 4 * 16), padding_char, padding_char]"
| "base64_encode [] = []"

definition invalid_character_error :: js_error where
  "invalid_character_error =
     \<lparr>name = ''InvalidCharacterError'', message = ''The string is not correctly encoded''\<rparr>"

definition btoa :: "jsstring \<Rightarrow> js_error + jsstring" where
  "btoa s =
     (if is_binary_string s then Inr (base64_encode (map toUint8 s))
      else Inl invalid_character_error)"

definition is_ascii_whitespace :: "code_unit \<Rightarrow> bool" where
  "is_ascii_whitespace c = (c = 9 \<or> c = 10 \<or> c = 12 \<or> c = 13 \<or> c = 32)"

definition strip_padding :: "jsstring \<Rightarrow> jsstring" where
  "strip_padding d =
     (if length d mod 4 = 0 \<and> d \<noteq> [] \<and> last d = padding_char
      then (if butlast d \<noteq> [] \<and> last (butlast d) = padding_char
            then butlast (butlast d) else butlast d)
      else d)"

fun decode_sextets :: "nat list \<Rightarrow> byte list" where
  "decode_sextets (a # b # c # d # rest) =
     [of_nat (a * 4 + b div 16), of_nat (b mod 16 * 16 + c div 4), of_nat (c mod 4 * 64 + d)]
     @ decode_sextets rest"
| "decode_sextets [a, b, c] = [of_nat (a * 4 + b div 16), of_nat (b mod 16 * 16 + c div 4)]"
| "decode_sextets [a, b] = [of_nat (a * 4 + b div 16)]"
| "decode_sextets [a] = []"
| "decode_sextets [] = []"

definition atob :: "jsstring \<Rightarrow> js_error + jsstring" where
  "atob base64 =
     (let d = strip_padding (filter (\<lambda>c. \<not> is_ascii_whitespace c) base64) in
      if length d mod 4 = 1 then Inl invalid_character_error
      else (case those (map b64_index d) of
              None \<Rightarrow> Inl invalid_character_error
            | Some ns \<Rightarrow> Inr (map fromCharCode (decode_sextets ns))))"

section \<open>The host's canonical constructor\<close>

text \<open>
  The \<open>Blob\<close> constructor of the File API, for an environment that has it: the bytes of
  the parts in order (a string part as UTF-8, a lone surrogate as U+FFFD), and the
  type in lower case, or empty when missing or when it has a character outside
  U+0020..U+007E.
\<close>

fun scalar_values :: "jsstring \<Rightarrow> nat list" where
  "scalar_values [] = []"
| "scalar_values [c] =
     (if 55296 \<le> unat c \<and> unat c \<le> 57343 then [65533] else [unat c])"
| "scalar_values (c # d # cs) =
     (if 55296 \<le> unat c \<and> unat c \<le> 56319 \<and> 56320 \<le> unat d \<and> unat d \<le> 57343
      then (65536 + (unat c - 55296) * 1024 + (unat d - 56320)) # scalar_values cs
      else if 55296 \<le> unat c \<and> unat c \<le> 57343 then 65533 # scalar_values (d # cs)
      else unat c # scalar_values (d # cs))"

definition utf8_bytes :: "nat \<Rightarrow> byte list" where
  "utf8_bytes n =
     (if n < 128 then [of_nat n]
      else if n < 2048 then [of_nat (192 + n div 64), of_nat (128 + n mod 64)]
      else if n < 65536 then
        [of_nat (224 + n div 4096), of_nat (128 + n div 64 mod 64), of_nat (128 + n mod 64)]
      else [of_nat (240 + n div 262144), of_nat (128 + n div 4096 mod 64),
            of_nat (128 + n div 64 mod 64), of_nat (128 + n mod 64)])"

fun part_bytes :: "part \<Rightarrow> byte list" where
  "part_bytes (BufferPart b) = b"
| "part_bytes (StringPart s) = concat (map utf8_bytes (scalar_values s))"

definition ascii_lowercase :: "code_unit \<Rightarrow> code_unit" where
  "ascii_lowercase c = (if 65 \<le> unat c \<and> unat c \<le> 90 then c + 32 else c)"

definition normalize_type :: "jsstring option \<Rightarrow> jsstring" where
  "normalize_type t =
     (case t of
        None \<Rightarrow> []
      | Some s \<Rightarrow>
          if list_all (\<lambda>c. 32 \<le> unat c \<and> unat c \<le> 126) s then map ascii_lowercase s else [])"

definition file_api_Blob :: "part list \<Rightarrow> jsstring option \<Rightarrow> js_error + jsblob" where
  "file_api_Blob parts t =
     Inr \<lparr>type = normalize_type t, bytes = concat (map part_bytes parts)\<rparr>"

text \<open>
  The type tag of every object that constructor makes is in this normal form:
  printable ASCII without upper-case letters.
\<close>

definition normal_type :: "jsstring \<Rightarrow> bool" where
  "normal_type t =
     list_all (\<lambda>c. 32 \<le> unat c \<and> unat c \<le> 126 \<and> \<not> (65 \<le> unat c \<and> unat c \<le> 90)) t"

section \<open>Binary object factory\<close>

text \<open>
  \<^verbatim>\<open>new Blob(parts, properties)\<close>: a reference error when the global is not declared,
  otherwise whatever the host's constructor does.
\<close>

definition new_Blob :: "'s env \<Rightarrow> part list \<Rightarrow> jsstring option \<Rightarrow> js_error + jsblob" where
  "new_Blob env parts t =
     (case Blob env of
        None \<Rightarrow> Inl \<lparr>name = ''ReferenceError'', message = ''Blob is not defined''\<rparr>
      | Some ctor \<Rightarrow> ctor parts t)"

text \<open>
  The conditional chain that picks \<open>Builder\<close>: the first of \<open>BlobBuilder\<close>,
  \<open>MSBlobBuilder\<close>, \<open>MozBlobBuilder\<close> whose \<open>typeof\<close> is not \<open>'undefined'\<close>, else the expression
  \<open>WebKitBlobBuilder\<close>, whose evaluation throws when that global is not declared.
\<close>

definition select_Builder :: "'s env \<Rightarrow> js_error + 's blob_builder" where
  "select_Builder env =
     (case BlobBuilder env of Some B \<Rightarrow> Inr B | None \<Rightarrow>
      (case MSBlobBuilder env of Some B \<Rightarrow> Inr B | None \<Rightarrow>
       (case MozBlobBuilder env of Some B \<Rightarrow> Inr B | None \<Rightarrow>
        (case WebKitBlobBuilder env of Some B \<Rightarrow> Inr B | None \<Rightarrow>
           Inl \<lparr>name = ''ReferenceError'',
                message = ''WebKitBlobBuilder is not defined''\<rparr>))))"

text \<open>\<^verbatim>\<open>for (var i = 0; i < parts.length; i += 1) builder.append(parts[i])\<close>\<close>

function append_loop :: "'s blob_builder \<Rightarrow> part list \<Rightarrow> nat \<Rightarrow> 's \<Rightarrow> js_error + 's" where
  "append_loop B parts i builder =
     (if i < length parts
      then (case append B builder (parts ! i) of
              Inl e \<Rightarrow> Inl e
            | Inr builder' \<Rightarrow> append_loop B parts (i + 1) builder')
      else Inr builder)"
  by pat_completeness auto
termination
  by (relation "measure (\<lambda>(B, parts, i, builder). length parts - i)") auto

declare append_loop.simps [simp del]

text \<open>The body of the \<open>catch\<close> block after the test of the error's name.\<close>

definition legacy_builder_blob :: "'s env \<Rightarrow> part list \<Rightarrow> jsstring option \<Rightarrow> js_error + jsblob" where
  "legacy_builder_blob env parts properties_type =
     (case select_Builder env of
        Inl e \<Rightarrow> Inl e
      | Inr B \<Rightarrow>
          (case construct B of
             Inl e \<Rightarrow> Inl e
           | Inr builder \<Rightarrow>
               (case append_loop B parts 0 builder of
                  Inl e \<Rightarrow> Inl e
                | Inr builder' \<Rightarrow> getBlob B builder' properties_type)))"

text \<open>
  \<^verbatim>\<open>parts = parts || []\<close>, and \<^verbatim>\<open>properties = properties || {}\<close> followed by the
  string shorthand; the empty string is falsy, so it becomes \<open>{}\<close> like a missing
  argument. Only the \<open>type\<close> field of the object is read afterwards.
\<close>

definition parts_or_empty :: "part list option \<Rightarrow> part list" where
  "parts_or_empty parts = (case parts of None \<Rightarrow> [] | Some ps \<Rightarrow> ps)"

definition properties_type :: "blob_properties \<Rightarrow> jsstring option" where
  "properties_type properties =
     (case properties of
        Undefined \<Rightarrow> None
      | TypeString s \<Rightarrow> (if s = [] then None else Some s)
      | Properties t \<Rightarrow> t)"

definition createBlob :: "'s env \<Rightarrow> part list option \<Rightarrow> blob_properties \<Rightarrow> js_error + jsblob" where
  "createBlob env parts properties =
     (case new_Blob env (parts_or_empty parts) (properties_type properties) of
        Inr blob \<Rightarrow> Inr blob
      | Inl e \<Rightarrow>
          if name e \<noteq> ''TypeError'' then Inl e
          else legacy_builder_blob env (parts_or_empty parts) (properties_type properties))"

section \<open>Promises and the asynchronous reader\<close>

text \<open>
  A promise is pending or settled; \<open>resolve\<close> and \<open>reject\<close> act on a pending promise
  only. A rejection carries a thrown error or, for \<^verbatim>\<open>reader.onerror = reject\<close>, the
  reader's error event.
\<close>

datatype reason = Thrown js_error | ErrorEvent js_error

datatype 'a promise = Pending | Fulfilled 'a | Rejected reason

definition resolve :: "'a \<Rightarrow> 'a promise \<Rightarrow> 'a promise" where
  "resolve v p = (case p of Pending \<Rightarrow> Fulfilled v | _ \<Rightarrow> p)"

definition reject :: "reason \<Rightarrow> 'a promise \<Rightarrow> 'a promise" where
  "reject r p = (case p of Pending \<Rightarrow> Rejected r | _ \<Rightarrow> p)"

text \<open>\<open>p.then(f)\<close>, where \<open>f\<close> returns a plain value or throws.\<close>

definition promise_then :: "'a promise \<Rightarrow> ('a \<Rightarrow> js_error + 'b) \<Rightarrow> 'b promise" where
  "promise_then p f =
     (case p of
        Pending \<Rightarrow> Pending
      | Rejected r \<Rightarrow> Rejected r
      | Fulfilled v \<Rightarrow> (case f v of Inl e \<Rightarrow> Rejected (Thrown e) | Inr w \<Rightarrow> Fulfilled w))"

text \<open>
  The reader has two handlers, \<open>onloadend\<close> and \<open>onerror\<close>; every other event passes
  unhandled. The promise of a read is the state after the host's events, in order.
\<close>

definition dispatch ::
  "('r option \<Rightarrow> 'a promise \<Rightarrow> 'a promise) \<Rightarrow> (js_error \<Rightarrow> 'a promise \<Rightarrow> 'a promise) \<Rightarrow>
   'r reader_event \<Rightarrow> 'a promise \<Rightarrow> 'a promise" where
  "dispatch onloadend onerror ev p =
     (case ev of EvLoadEnd result \<Rightarrow> onloadend result p | EvError e \<Rightarrow> onerror e p | _ \<Rightarrow> p)"

definition run_reader ::
  "('r option \<Rightarrow> 'a promise \<Rightarrow> 'a promise) \<Rightarrow> (js_error \<Rightarrow> 'a promise \<Rightarrow> 'a promise) \<Rightarrow>
   'r reader_event list \<Rightarrow> 'a promise" where
  "run_reader onloadend onerror evs =
     foldl (\<lambda>p ev. dispatch onloadend onerror ev p) Pending evs"

text \<open>
  \<open>blobToBinaryString\<close>: \<open>hasBinaryString\<close> is whether \<open>readAsBinaryString\<close> is a function.
  The handler takes \<^verbatim>\<open>e.target.result || ''\<close> and resolves with it, or with
  \<open>arrayBufferToBinaryString\<close> of it; a \<open>Uint8Array\<close> over \<open>''\<close> has no elements.
\<close>

definition blobToBinaryString :: "'s env \<Rightarrow> jsblob \<Rightarrow> jsstring promise" where
  "blobToBinaryString env blob =
     (case readAsBinaryString env of
        Some read \<Rightarrow>
          run_reader
            (\<lambda>result. resolve (case result of None \<Rightarrow> [] | Some s \<Rightarrow> s))
            (\<lambda>e. reject (ErrorEvent e))
            (read blob)
      | None \<Rightarrow>
          run_reader
            (\<lambda>result. resolve
               (arrayBufferToBinaryString (case result of None \<Rightarrow> [] | Some b \<Rightarrow> b)))
            (\<lambda>e. reject (ErrorEvent e))
            (readAsArrayBuffer env blob))"

definition blobToBase64String :: "'s env \<Rightarrow> jsblob \<Rightarrow> jsstring promise" where
  "blobToBase64String env blob = promise_then (blobToBinaryString env blob) btoa"

definition blobToDataURL :: "'s env \<Rightarrow> jsblob \<Rightarrow> jsstring promise" where
  "blobToDataURL env blob =
     promise_then (blobToBase64String env blob)
       (\<lambda>base64String. Inr (js ''data:'' @ type blob @ js '';base64,'' @ base64String))"

text \<open>\<open>blobToArrayBuffer\<close>: \<^verbatim>\<open>e.target.result || new ArrayBuffer(0)\<close>.\<close>

definition blobToArrayBuffer :: "'s env \<Rightarrow> jsblob \<Rightarrow> byte list promise" where
  "blobToArrayBuffer env blob =
     run_reader
       (\<lambda>result. resolve (case result of None \<Rightarrow> [] | Some b \<Rightarrow> b))
       (\<lambda>e. reject (ErrorEvent e))
       (readAsArrayBuffer env blob)"

section \<open>Data URLs\<close>

definition semicolon :: code_unit where
  "semicolon = 59"

definition comma :: code_unit where
  "comma = 44"

text \<open>
  \<^verbatim>\<open>dataURL.match(/data:([^;]+)/)\<close>: the pattern is not anchored, so the leftmost
  position wins where \<open>data:\<close> is followed by at least one character other than \<open>;\<close>;
  the group is the longest run of such characters. \<open>None\<close> is the \<open>null\<close> of a failed
  match.
\<close>

fun match_data_type :: "jsstring \<Rightarrow> jsstring option" where
  "match_data_type [] = None"
| "match_data_type (c # cs) =
     (if take 5 (c # cs) = js ''data:''
         \<and> takeWhile (\<lambda>x. x \<noteq> semicolon) (drop 5 (c # cs)) \<noteq> []
      then Some (takeWhile (\<lambda>x. x \<noteq> semicolon) (drop 5 (c # cs)))
      else match_data_type cs)"

text \<open>
  \<^verbatim>\<open>dataURL.replace(/^[^,]+,/, '')\<close>: a non-empty run of characters other than \<open>,\<close> at
  the start, followed by a comma, is removed with that comma; a string without such
  a prefix is returned as it is.
\<close>

definition replace_to_comma :: "jsstring \<Rightarrow> jsstring" where
  "replace_to_comma dataURL =
     (if takeWhile (\<lambda>x. x \<noteq> comma) dataURL \<noteq> [] \<and> dropWhile (\<lambda>x. x \<noteq> comma) dataURL \<noteq> []
      then tl (dropWhile (\<lambda>x. x \<noteq> comma) dataURL)
      else dataURL)"

text \<open>\<open>dataURLToBlob\<close>: indexing the \<open>null\<close> of a failed match throws a type error.\<close>

definition dataURLToBlob :: "'s env \<Rightarrow> jsstring \<Rightarrow> js_error + jsblob" where
  "dataURLToBlob env dataURL =
     (case match_data_type dataURL of
        None \<Rightarrow> Inl \<lparr>name = ''TypeError'', message = ''Cannot read properties of null''\<rparr>
      | Some t \<Rightarrow>
          (case atob (replace_to_comma dataURL) of
             Inl e \<Rightarrow> Inl e
           | Inr binary \<Rightarrow>
               createBlob env (Some [BufferPart (binaryStringToArrayBuffer binary)])
                 (Properties (Some t))))"

section \<open>Canvas\<close>

text \<open>
  A canvas: its \<open>toBlob\<close> method, when it has one, and \<open>toDataURL\<close>. A call of the host's
  \<open>toBlob\<close> either throws or invokes the callback it was given with these values, in
  order (a conforming host: once, with a \<open>Blob\<close> or \<open>null\<close>). The quality argument is
  passed through unread.
\<close>

record 'q canvas =
  toBlob :: "(jsstring option \<Rightarrow> 'q \<Rightarrow> js_error + jsblob option list) option"
  toDataURL :: "jsstring option \<Rightarrow> 'q \<Rightarrow> js_error + jsstring"

text \<open>
  \<open>canvasToBlob\<close>: with \<open>toBlob\<close>, a promise whose executor passes \<open>resolve\<close> as the
  callback (an exception of the executor rejects the promise); without it,
  \<^verbatim>\<open>Promise.resolve(dataURLToBlob(canvas.toDataURL(type, quality)))\<close>, whose argument
  is evaluated first and may throw.
\<close>

definition canvasToBlob ::
  "'s env \<Rightarrow> 'q canvas \<Rightarrow> jsstring option \<Rightarrow> 'q \<Rightarrow> js_error + jsblob option promise" where
  "canvasToBlob env canvas t quality =
     (case toBlob canvas of
        Some primitive \<Rightarrow>
          Inr (case primitive t quality of
                 Inl e \<Rightarrow> Rejected (Thrown e)
               | Inr calls \<Rightarrow> foldl (\<lambda>p v. resolve v p) Pending calls)
      | None \<Rightarrow>
          (case toDataURL canvas t quality of
             Inl e \<Rightarrow> Inl e
           | Inr dataURL \<Rightarrow>
               (case dataURLToBlob env dataURL of
                  Inl e \<Rightarrow> Inl e
                | Inr blob \<Rightarrow> Inr (Fulfilled (Some blob)))))"

section \<open>A conforming reader and the settlement of a read\<close>

text \<open>
  The File API's event sequences: a successful read fires \<open>load\<close> and then \<open>loadend\<close>
  with the result; a failed one fires \<open>error\<close> and then \<open>loadend\<close> with no result. The
  text mode delivers each byte as one code unit.
\<close>

datatype read_outcome = ReadOk | ReadFailed js_error

definition file_api_events :: "read_outcome \<Rightarrow> 'r \<Rightarrow> 'r reader_event list" where
  "file_api_events outcome result =
     (case outcome of
        ReadOk \<Rightarrow> [EvLoadStart, EvProgress, EvLoad, EvLoadEnd (Some result)]
      | ReadFailed e \<Rightarrow> [EvLoadStart, EvError e, EvLoadEnd None])"

definition file_api_binary_string :: "byte list \<Rightarrow> jsstring" where
  "file_api_binary_string bs = map ucast bs"

definition conforming_read :: "'s env \<Rightarrow> jsblob \<Rightarrow> read_outcome \<Rightarrow> bool" where
  "conforming_read env blob outcome =
     ((case readAsBinaryString env of
         None \<Rightarrow> True
       | Some read \<Rightarrow> read blob = file_api_events outcome (file_api_binary_string (bytes blob)))
      \<and> readAsArrayBuffer env blob = file_api_events outcome (bytes blob))"

text \<open>
  What a read settles to, said directly: the first \<open>loadend\<close> or \<open>error\<close> event decides,
  and nothing after it counts.
\<close>

fun first_signal :: "('r option \<Rightarrow> 'a) \<Rightarrow> 'r reader_event list \<Rightarrow> 'a promise" where
  "first_signal f [] = Pending"
| "first_signal f (EvLoadEnd result # evs) = Fulfilled (f result)"
| "first_signal f (EvError e # evs) = Rejected (ErrorEvent e)"
| "first_signal f (ev # evs) = first_signal f evs"

section \<open>Example environments\<close>

text \<open>
  Concrete hosts on which the theorems below are instantiated. A current browser has
  the canonical constructor and both read modes. An old WebKit has a \<open>Blob\<close> global
  that cannot be constructed, the prefixed builder (which collects the appended parts)
  and no text read mode.
\<close>

definition list_builder :: "part list blob_builder" where
  "list_builder =
     \<lparr>construct = Inr [],
      append = (\<lambda>s p. Inr (s @ [p])),
      getBlob = (\<lambda>s t. file_api_Blob s t)\<rparr>"

definition modern_env :: "part list env" where
  "modern_env =
     \<lparr>Blob = Some file_api_Blob,
      BlobBuilder = None, MSBlobBuilder = None, MozBlobBuilder = None,
      WebKitBlobBuilder = None,
      readAsBinaryString =
        Some (\<lambda>b. file_api_events ReadOk (file_api_binary_string (bytes b))),
      readAsArrayBuffer = (\<lambda>b. file_api_events ReadOk (bytes b))\<rparr>"

definition legacy_env :: "part list env" where
  "legacy_env =
     \<lparr>Blob = Some (\<lambda>ps t. Inl \<lparr>name = ''TypeError'', message = ''Illegal constructor''\<rparr>),
      BlobBuilder = None, MSBlobBuilder = None, MozBlobBuilder = None,
      WebKitBlobBuilder = Some list_builder,
      readAsBinaryString = None,
      readAsArrayBuffer = (\<lambda>b. file_api_events ReadOk (bytes b))\<rparr>"

text \<open>
  Two canvases whose content is not origin-clean: the host refuses to serialize them,
  so \<open>toBlob\<close> and \<open>toDataURL\<close> throw a security error. One has \<open>toBlob\<close>, the other
  has not.
\<close>

definition security_error :: js_error where
  "security_error = \<lparr>name = ''SecurityError'', message = ''Tainted canvas''\<rparr>"

definition tainted_canvas :: "unit canvas" where
  "tainted_canvas =
     \<lparr>toBlob = Some (\<lambda>t q. Inl security_error), toDataURL = (\<lambda>t q. Inl security_error)\<rparr>"

definition tainted_canvas_without_toBlob :: "unit canvas" where
  "tainted_canvas_without_toBlob =
     \<lparr>toBlob = None, toDataURL = (\<lambda>t q. Inl security_error)\<rparr>"

section \<open>Properties of the byte codec\<close>

lemma unat_toUint8: "unat (toUint8 c) = unat c mod 256"
  by (simp add: toUint8_def unsigned_ucast_eq take_bit_eq_mod)

lemma unat_byte_less: "unat (b :: byte) < 256"
proof -
  have "unat b < 2 ^ LENGTH(8)" by (rule unsigned_less)
  then show ?thesis by simp
qed

lemma unat_fromCharCode: "unat (fromCharCode b) = unat b"
proof -
  have "unat b < 2 ^ 16" using unat_byte_less [of b] by simp
  then show ?thesis
    by (simp add: fromCharCode_def unsigned_ucast_eq take_bit_nat_eq_self del: unsigned_less)
qed

lemma toUint8_fromCharCode: "toUint8 (fromCharCode b) = b"
proof -
  have "unat (toUint8 (fromCharCode b)) = unat b"
    using unat_byte_less [of b] by (simp add: unat_toUint8 unat_fromCharCode)
  then show ?thesis by (simp add: word_unat_eq_iff)
qed

lemma fromCharCode_toUint8:
  assumes "unat c \<le> 255"
  shows "fromCharCode (toUint8 c) = c"
proof -
  from assms have "unat (fromCharCode (toUint8 c)) = unat c"
    by (simp add: unat_toUint8 unat_fromCharCode)
  then show ?thesis by (simp add: word_unat_eq_iff)
qed

text \<open>The write loop, started at index \<open>i\<close>, leaves the first \<open>i\<close> bytes alone.\<close>

lemma b2ab_loop_eq:
  "length arr = length binary \<Longrightarrow>
   b2ab_loop binary i arr = take i arr @ map toUint8 (drop i binary)"
proof (induction binary i arr rule: b2ab_loop.induct)
  case (1 binary i arr)
  show ?case
  proof (cases "i < length binary")
    case True
    have "b2ab_loop binary i arr = b2ab_loop binary (Suc i) (arr[i := toUint8 (binary ! i)])"
      using True by (simp add: b2ab_loop.simps [of binary i arr])
    also have "\<dots> = take (Suc i) (arr[i := toUint8 (binary ! i)])
                   @ map toUint8 (drop (Suc i) binary)"
      using True "1.prems" by (intro "1.IH") simp_all
    also have "\<dots> = take i arr @ map toUint8 (drop i binary)"
      using True "1.prems"
      by (simp add: take_Suc_conv_app_nth Cons_nth_drop_Suc [symmetric])
    finally show ?thesis .
  next
    case False
    then show ?thesis
      using "1.prems" by (simp add: b2ab_loop.simps [of binary i arr])
  qed
qed

lemma binaryStringToArrayBuffer_map:
  "binaryStringToArrayBuffer binary = map toUint8 binary"
  by (simp add: binaryStringToArrayBuffer_def b2ab_loop_eq)

lemma ab2bs_loop_eq:
  "ab2bs_loop buffer i binary = binary @ map fromCharCode (drop i buffer)"
proof (induction buffer i binary rule: ab2bs_loop.induct)
  case (1 buffer i binary)
  show ?case
  proof (cases "i < length buffer")
    case True
    then show ?thesis
      using "1.IH"
      by (simp add: ab2bs_loop.simps [of buffer i binary] Cons_nth_drop_Suc [symmetric])
  next
    case False
    then show ?thesis by (simp add: ab2bs_loop.simps [of buffer i binary])
  qed
qed

lemma arrayBufferToBinaryString_map:
  "arrayBufferToBinaryString buffer = map fromCharCode buffer"
  by (simp add: arrayBufferToBinaryString_def ab2bs_loop_eq)

lemma is_binary_string_arrayBufferToBinaryString:
  "is_binary_string (arrayBufferToBinaryString buffer)"
proof -
  have "unat (fromCharCode b) \<le> 255" for b
    using unat_byte_less [of b] by (simp add: unat_fromCharCode)
  then show ?thesis
    by (simp add: arrayBufferToBinaryString_map is_binary_string_def list_all_iff)
qed

text \<open>
  Claim C1. Both round trips of the byte codec: every byte sequence \<open>b\<close> survives
  \<open>arrayBufferToBinaryString\<close> followed by \<open>binaryStringToArrayBuffer\<close>, and every
  binary string \<open>s\<close> (all code units in 0..255) survives the opposite composition.
  The results are equal as sequences, so order and length are preserved.
\<close>

theorem byte_codec_round_trip:
  "binaryStringToArrayBuffer (arrayBufferToBinaryString b) = b \<and>
   (is_binary_string s \<longrightarrow> arrayBufferToBinaryString (binaryStringToArrayBuffer s) = s)"
proof
  show "binaryStringToArrayBuffer (arrayBufferToBinaryString b) = b"
    by (simp add: binaryStringToArrayBuffer_map arrayBufferToBinaryString_map
        o_def toUint8_fromCharCode)
next
  show "is_binary_string s \<longrightarrow> arrayBufferToBinaryString (binaryStringToArrayBuffer s) = s"
    by (simp add: binaryStringToArrayBuffer_map arrayBufferToBinaryString_map
        o_def is_binary_string_def list_all_iff fromCharCode_toUint8 map_idI)
qed

theorem byte_codec_round_trip_witness:
  "binaryStringToArrayBuffer (arrayBufferToBinaryString [0, 104, 255]) = [0, 104, 255] \<and>
   is_binary_string [104, 0, 255] \<and>
   arrayBufferToBinaryString (binaryStringToArrayBuffer [104, 0, 255]) = [104, 0, 255]"
proof -
  have v: "is_binary_string [104, 0, 255]"
    by (simp add: is_binary_string_def)
  from byte_codec_round_trip [of "[0, 104, 255]" "[104, 0, 255]"] v show ?thesis
    by simp
qed

text \<open>
  Claim C10. \<open>binaryStringToArrayBuffer\<close> is defined on every string, binary or not:
  the output has as many bytes as the input has code units, and byte \<open>i\<close> is code
  unit \<open>i\<close> modulo 256, so a code unit above 255 is truncated, never rejected.
\<close>

theorem binaryStringToArrayBuffer_truncates:
  "length (binaryStringToArrayBuffer binary) = length binary \<and>
   (\<forall>i < length binary.
      unat (binaryStringToArrayBuffer binary ! i) = unat (binary ! i) mod 256)"
  by (simp add: binaryStringToArrayBuffer_map unat_toUint8)

theorem binaryStringToArrayBuffer_truncates_witness:
  "length (binaryStringToArrayBuffer [321, 66, 65535]) = 3 \<and>
   unat (binaryStringToArrayBuffer [321, 66, 65535] ! 0) = 65 \<and>
   unat (binaryStringToArrayBuffer [321, 66, 65535] ! 2) = 255"
  using binaryStringToArrayBuffer_truncates [of "[321, 66, 65535]", THEN conjunct1]
    binaryStringToArrayBuffer_truncates [of "[321, 66, 65535]", THEN conjunct2, rule_format, of 0]
    binaryStringToArrayBuffer_truncates [of "[321, 66, 65535]", THEN conjunct2, rule_format, of 2]
  by simp

section \<open>Settlement of a read\<close>

text \<open>Once a promise is settled, the handlers leave it as it is.\<close>

lemma foldl_dispatch_settled:
  "p \<noteq> Pending \<Longrightarrow>
   foldl (\<lambda>p ev. dispatch (\<lambda>r. resolve (f r)) (\<lambda>e. reject (ErrorEvent e)) ev p) p evs = p"
proof (induction evs)
  case Nil
  then show ?case by simp
next
  case (Cons ev evs)
  have "dispatch (\<lambda>r. resolve (f r)) (\<lambda>e. reject (ErrorEvent e)) ev p = p"
    using Cons.prems
    by (cases p; cases ev) (simp_all add: dispatch_def resolve_def reject_def)
  then show ?case using Cons by simp
qed

lemma run_reader_first_signal:
  "run_reader (\<lambda>r. resolve (f r)) (\<lambda>e. reject (ErrorEvent e)) evs = first_signal f evs"
proof (induction evs)
  case Nil
  then show ?case by (simp add: run_reader_def)
next
  case (Cons ev evs)
  let ?d = "dispatch (\<lambda>r. resolve (f r)) (\<lambda>e. reject (ErrorEvent e))"
  have step: "run_reader (\<lambda>r. resolve (f r)) (\<lambda>e. reject (ErrorEvent e)) (ev # evs)
                = foldl (\<lambda>p ev. ?d ev p) (?d ev Pending) evs"
    by (simp add: run_reader_def)
  show ?case
  proof (cases ev)
    case (EvLoadEnd r)
    then have d: "?d ev Pending = Fulfilled (f r)"
      by (simp add: dispatch_def resolve_def)
    show ?thesis
      unfolding step d using EvLoadEnd by (simp add: foldl_dispatch_settled)
  next
    case (EvError e)
    then have d: "?d ev Pending = Rejected (ErrorEvent e)"
      by (simp add: dispatch_def reject_def)
    show ?thesis
      unfolding step d using EvError by (simp add: foldl_dispatch_settled)
  next
    case EvLoadStart
    then show ?thesis using Cons.IH by (simp add: run_reader_def dispatch_def)
  next
    case EvProgress
    then show ?thesis using Cons.IH by (simp add: run_reader_def dispatch_def)
  next
    case EvLoad
    then show ?thesis using Cons.IH by (simp add: run_reader_def dispatch_def)
  next
    case EvAbort
    then show ?thesis using Cons.IH by (simp add: run_reader_def dispatch_def)
  qed
qed

lemma run_reader_append_settled:
  "run_reader (\<lambda>r. resolve (f r)) (\<lambda>e. reject (ErrorEvent e)) pre \<noteq> Pending \<Longrightarrow>
   run_reader (\<lambda>r. resolve (f r)) (\<lambda>e. reject (ErrorEvent e)) (pre @ post)
     = run_reader (\<lambda>r. resolve (f r)) (\<lambda>e. reject (ErrorEvent e)) pre"
  by (simp add: run_reader_def foldl_dispatch_settled)

lemma first_signal_file_api_events:
  "first_signal f (file_api_events outcome r) =
     (case outcome of ReadOk \<Rightarrow> Fulfilled (f (Some r)) | ReadFailed e \<Rightarrow> Rejected (ErrorEvent e))"
  by (simp add: file_api_events_def split: read_outcome.splits)

text \<open>
  Claim C9. \<open>blobToArrayBuffer\<close> issues a buffer read and settles with the first
  \<open>loadend\<close> or \<open>error\<close> signal of that read: a completed read resolves with its byte
  sequence, a \<open>loadend\<close> without a result resolves with the empty buffer, an \<open>error\<close>
  signal rejects with the reader's error event. The call settles once: when the
  events so far have settled the promise, no later event changes it.
\<close>

theorem blobToArrayBuffer_settles:
  "blobToArrayBuffer env blob
     = first_signal (\<lambda>result. case result of None \<Rightarrow> [] | Some b \<Rightarrow> b) (readAsArrayBuffer env blob)
   \<and> (readAsArrayBuffer env blob = file_api_events ReadOk buffer
        \<longrightarrow> blobToArrayBuffer env blob = Fulfilled buffer)
   \<and> (readAsArrayBuffer env blob = [EvLoadStart, EvAbort, EvLoadEnd None]
        \<longrightarrow> blobToArrayBuffer env blob = Fulfilled [])
   \<and> (readAsArrayBuffer env blob = file_api_events (ReadFailed e) buffer
        \<longrightarrow> blobToArrayBuffer env blob = Rejected (ErrorEvent e))
   \<and> (blobToArrayBuffer (env\<lparr>readAsArrayBuffer := \<lambda>b. pre\<rparr>) blob \<noteq> Pending
        \<longrightarrow> blobToArrayBuffer (env\<lparr>readAsArrayBuffer := \<lambda>b. pre @ post\<rparr>) blob
              = blobToArrayBuffer (env\<lparr>readAsArrayBuffer := \<lambda>b. pre\<rparr>) blob)"
proof (intro conjI impI)
  show "blobToArrayBuffer env blob
     = first_signal (\<lambda>result. case result of None \<Rightarrow> [] | Some b \<Rightarrow> b) (readAsArrayBuffer env blob)"
    by (simp add: blobToArrayBuffer_def run_reader_first_signal)
next
  assume "readAsArrayBuffer env blob = file_api_events ReadOk buffer"
  then show "blobToArrayBuffer env blob = Fulfilled buffer"
    by (simp add: blobToArrayBuffer_def run_reader_first_signal first_signal_file_api_events)
next
  assume "readAsArrayBuffer env blob = [EvLoadStart, EvAbort, EvLoadEnd None]"
  then show "blobToArrayBuffer env blob = Fulfilled []"
    by (simp add: blobToArrayBuffer_def run_reader_first_signal)
next
  assume "readAsArrayBuffer env blob = file_api_events (ReadFailed e) buffer"
  then show "blobToArrayBuffer env blob = Rejected (ErrorEvent e)"
    by (simp add: blobToArrayBuffer_def run_reader_first_signal first_signal_file_api_events)
next
  assume "blobToArrayBuffer (env\<lparr>readAsArrayBuffer := \<lambda>b. pre\<rparr>) blob \<noteq> Pending"
  then show "blobToArrayBuffer (env\<lparr>readAsArrayBuffer := \<lambda>b. pre @ post\<rparr>) blob
              = blobToArrayBuffer (env\<lparr>readAsArrayBuffer := \<lambda>b. pre\<rparr>) blob"
    by (simp add: blobToArrayBuffer_def run_reader_append_settled)
qed

theorem blobToArrayBuffer_settles_witness:
  "blobToArrayBuffer modern_env \<lparr>type = js ''text/plain'', bytes = [104, 105]\<rparr>
     = Fulfilled [104, 105]
   \<and> blobToArrayBuffer
        (modern_env\<lparr>readAsArrayBuffer := \<lambda>b. [EvLoadStart, EvAbort, EvLoadEnd None]\<rparr>)
        \<lparr>type = js ''text/plain'', bytes = [104, 105]\<rparr>
     = Fulfilled []
   \<and> blobToArrayBuffer
        (modern_env\<lparr>readAsArrayBuffer := \<lambda>b. file_api_events
           (ReadFailed \<lparr>name = ''NotReadableError'', message = ''''\<rparr>) (bytes b)\<rparr>)
        \<lparr>type = js ''text/plain'', bytes = [104, 105]\<rparr>
     = Rejected (ErrorEvent \<lparr>name = ''NotReadableError'', message = ''''\<rparr>)
   \<and> blobToArrayBuffer
        (modern_env\<lparr>readAsArrayBuffer := \<lambda>b. [EvLoadEnd (Some [1])] @ [EvLoadEnd (Some [2])]\<rparr>)
        \<lparr>type = js ''text/plain'', bytes = [104, 105]\<rparr>
     = blobToArrayBuffer
        (modern_env\<lparr>readAsArrayBuffer := \<lambda>b. [EvLoadEnd (Some [1])]\<rparr>)
        \<lparr>type = js ''text/plain'', bytes = [104, 105]\<rparr>"
proof -
  let ?blob = "\<lparr>type = js ''text/plain'', bytes = [104, 105]\<rparr>"
  let ?err = "\<lparr>name = ''NotReadableError'', message = ''''\<rparr>"
  let ?aborted = "modern_env\<lparr>readAsArrayBuffer := \<lambda>b. [EvLoadStart, EvAbort, EvLoadEnd None]\<rparr>"
  let ?failing = "modern_env\<lparr>readAsArrayBuffer := \<lambda>b. file_api_events (ReadFailed ?err) (bytes b)\<rparr>"
  have 1: "readAsArrayBuffer modern_env ?blob = file_api_events ReadOk [104, 105]"
    by (simp add: modern_env_def)
  have 2: "readAsArrayBuffer ?aborted ?blob = [EvLoadStart, EvAbort, EvLoadEnd None]"
    by simp
  have 3: "readAsArrayBuffer ?failing ?blob = file_api_events (ReadFailed ?err) [104, 105]"
    by simp
  have 4: "blobToArrayBuffer (modern_env\<lparr>readAsArrayBuffer := \<lambda>b. [EvLoadEnd (Some [1])]\<rparr>) ?blob
             \<noteq> Pending"
    using blobToArrayBuffer_settles
      [of "modern_env\<lparr>readAsArrayBuffer := \<lambda>b. [EvLoadEnd (Some [1])]\<rparr>" ?blob]
    by simp
  from 1 blobToArrayBuffer_settles [of modern_env ?blob "[104, 105]"]
  have a: "blobToArrayBuffer modern_env ?blob = Fulfilled [104, 105]" by blast
  from 2 blobToArrayBuffer_settles [of ?aborted ?blob]
  have b: "blobToArrayBuffer ?aborted ?blob = Fulfilled []" by blast
  from 3 blobToArrayBuffer_settles [of ?failing ?blob "[104, 105]" ?err]
  have c: "blobToArrayBuffer ?failing ?blob = Rejected (ErrorEvent ?err)" by blast
  from 4 blobToArrayBuffer_settles
    [of modern_env ?blob _ _ "[EvLoadEnd (Some [1])]" "[EvLoadEnd (Some [2])]"]
  have d: "blobToArrayBuffer
        (modern_env\<lparr>readAsArrayBuffer := \<lambda>b. [EvLoadEnd (Some [1])] @ [EvLoadEnd (Some [2])]\<rparr>) ?blob
     = blobToArrayBuffer (modern_env\<lparr>readAsArrayBuffer := \<lambda>b. [EvLoadEnd (Some [1])]\<rparr>) ?blob"
    by blast
  from a b c d show ?thesis by blast
qed

section \<open>The type-error gate of the factory\<close>

text \<open>
  Claim C3. \<open>createBlob\<close> tries the canonical constructor first. Its result is
  returned when it succeeds; an error whose name is not \<open>TypeError\<close> is rethrown as it
  is; only an error named \<open>TypeError\<close> leads to the legacy builder chain. Unless that
  happens no builder is consulted: the result does not depend on which builders the
  environment has.
\<close>

theorem createBlob_fallback_gate:
  "(new_Blob env (parts_or_empty parts) (properties_type properties) = Inr blob
      \<longrightarrow> createBlob env parts properties = Inr blob)
   \<and> (new_Blob env (parts_or_empty parts) (properties_type properties) = Inl e
        \<and> name e \<noteq> ''TypeError''
      \<longrightarrow> createBlob env parts properties = Inl e)
   \<and> (new_Blob env (parts_or_empty parts) (properties_type properties) = Inl e
        \<and> name e = ''TypeError''
      \<longrightarrow> createBlob env parts properties
            = legacy_builder_blob env (parts_or_empty parts) (properties_type properties))
   \<and> (\<not> (\<exists>e. new_Blob env (parts_or_empty parts) (properties_type properties) = Inl e
            \<and> name e = ''TypeError'')
      \<longrightarrow> createBlob (env\<lparr>BlobBuilder := b1, MSBlobBuilder := b2, MozBlobBuilder := b3,
                         WebKitBlobBuilder := b4\<rparr>) parts properties
            = createBlob env parts properties)"
  by (auto simp add: createBlob_def new_Blob_def split: sum.splits option.splits)

theorem createBlob_fallback_gate_witness:
  "createBlob modern_env (Some [BufferPart [1, 2]]) (TypeString (js ''text/plain''))
     = Inr \<lparr>type = js ''text/plain'', bytes = [1, 2]\<rparr>
   \<and> createBlob
        (legacy_env\<lparr>Blob := Some (\<lambda>ps t. Inl \<lparr>name = ''RangeError'', message = ''''\<rparr>)\<rparr>)
        (Some [BufferPart [1, 2]]) (TypeString (js ''text/plain''))
     = Inl \<lparr>name = ''RangeError'', message = ''''\<rparr>
   \<and> createBlob legacy_env (Some [BufferPart [1, 2]]) (TypeString (js ''text/plain''))
     = legacy_builder_blob legacy_env [BufferPart [1, 2]] (Some (js ''text/plain''))
   \<and> createBlob
        (modern_env\<lparr>BlobBuilder := Some list_builder, MSBlobBuilder := None,
           MozBlobBuilder := None, WebKitBlobBuilder := Some list_builder\<rparr>)
        (Some [BufferPart [1, 2]]) (TypeString (js ''text/plain''))
     = createBlob modern_env (Some [BufferPart [1, 2]]) (TypeString (js ''text/plain''))"
proof -
  let ?parts = "Some [BufferPart [1, 2]]"
  let ?props = "TypeString (js ''text/plain'')"
  let ?range = "\<lparr>name = ''RangeError'', message = ''''\<rparr>"
  let ?throwing = "legacy_env\<lparr>Blob := Some (\<lambda>ps t. Inl ?range)\<rparr>"
  have n: "normalize_type (Some (js ''text/plain'')) = js ''text/plain''"
    by (simp add: normalize_type_def js_def ascii_lowercase_def)
  have p: "parts_or_empty ?parts = [BufferPart [1, 2]]"
    "properties_type ?props = Some (js ''text/plain'')"
    by (simp_all add: parts_or_empty_def properties_type_def js_def)
  have 1: "new_Blob modern_env (parts_or_empty ?parts) (properties_type ?props)
             = Inr \<lparr>type = js ''text/plain'', bytes = [1, 2]\<rparr>"
    unfolding p by (simp add: new_Blob_def modern_env_def file_api_Blob_def n)
  have 2: "new_Blob ?throwing (parts_or_empty ?parts) (properties_type ?props) = Inl ?range
             \<and> name ?range \<noteq> ''TypeError''"
    by (simp add: new_Blob_def)
  have 3: "new_Blob legacy_env (parts_or_empty ?parts) (properties_type ?props)
             = Inl \<lparr>name = ''TypeError'', message = ''Illegal constructor''\<rparr>
           \<and> name \<lparr>name = ''TypeError'', message = ''Illegal constructor''\<rparr> = ''TypeError''"
    by (simp add: new_Blob_def legacy_env_def)
  have 4: "\<not> (\<exists>e. new_Blob modern_env (parts_or_empty ?parts) (properties_type ?props) = Inl e
                  \<and> name e = ''TypeError'')"
    unfolding 1 by simp
  from 1 createBlob_fallback_gate [of modern_env ?parts ?props]
  have a: "createBlob modern_env ?parts ?props = Inr \<lparr>type = js ''text/plain'', bytes = [1, 2]\<rparr>"
    by blast
  from 2 createBlob_fallback_gate [of ?throwing ?parts ?props _ ?range]
  have b: "createBlob ?throwing ?parts ?props = Inl ?range"
    by blast
  from 3 createBlob_fallback_gate
    [of legacy_env ?parts ?props _ "\<lparr>name = ''TypeError'', message = ''Illegal constructor''\<rparr>"]
  have "createBlob legacy_env ?parts ?props
          = legacy_builder_blob legacy_env (parts_or_empty ?parts) (properties_type ?props)"
    by blast
  then have c: "createBlob legacy_env ?parts ?props
          = legacy_builder_blob legacy_env [BufferPart [1, 2]] (Some (js ''text/plain''))"
    unfolding p .
  from 4 createBlob_fallback_gate
    [of modern_env ?parts ?props _ _ "Some list_builder" None None "Some list_builder"]
  have d: "createBlob
        (modern_env\<lparr>BlobBuilder := Some list_builder, MSBlobBuilder := None,
           MozBlobBuilder := None, WebKitBlobBuilder := Some list_builder\<rparr>) ?parts ?props
     = createBlob modern_env ?parts ?props"
    by blast
  from a b c d show ?thesis by blast
qed

text \<open>On the old WebKit host the fallback builds the object from the appended parts.\<close>

lemma legacy_builder_blob_legacy_env:
  "legacy_builder_blob legacy_env [BufferPart [1], BufferPart [2]] (Some (js ''text/plain''))
     = Inr \<lparr>type = js ''text/plain'', bytes = [1, 2]\<rparr>"
proof -
  have n: "normalize_type (Some (js ''text/plain'')) = js ''text/plain''"
    by (simp add: normalize_type_def js_def ascii_lowercase_def)
  have "append_loop list_builder [BufferPart [1], BufferPart [2]] 0 []
          = Inr [BufferPart [1], BufferPart [2]]"
    by (simp add: append_loop.simps list_builder_def)
  then show ?thesis
    by (simp add: legacy_builder_blob_def select_Builder_def legacy_env_def list_builder_def
        file_api_Blob_def n)
qed

text \<open>
  Claim C6. When the canonical constructor fails with a type error and none of
  \<open>BlobBuilder\<close>, \<open>MSBlobBuilder\<close>, \<open>MozBlobBuilder\<close>, \<open>WebKitBlobBuilder\<close> exists,
  \<open>createBlob\<close> fails with the reference error of the last lookup; it returns no
  object.
\<close>

theorem createBlob_unsupported:
  "new_Blob env (parts_or_empty parts) (properties_type properties) = Inl e \<Longrightarrow>
   name e = ''TypeError'' \<Longrightarrow>
   BlobBuilder env = None \<Longrightarrow> MSBlobBuilder env = None \<Longrightarrow>
   MozBlobBuilder env = None \<Longrightarrow> WebKitBlobBuilder env = None \<Longrightarrow>
   createBlob env parts properties
     = Inl \<lparr>name = ''ReferenceError'', message = ''WebKitBlobBuilder is not defined''\<rparr>"
  by (simp add: createBlob_def legacy_builder_blob_def select_Builder_def)

theorem createBlob_unsupported_witness:
  "createBlob (legacy_env\<lparr>WebKitBlobBuilder := None\<rparr>) (Some [BufferPart [1, 2]]) Undefined
     = Inl \<lparr>name = ''ReferenceError'', message = ''WebKitBlobBuilder is not defined''\<rparr>"
proof -
  let ?env = "legacy_env\<lparr>WebKitBlobBuilder := None\<rparr>"
  have 1: "new_Blob ?env (parts_or_empty (Some [BufferPart [1, 2]])) (properties_type Undefined)
             = Inl \<lparr>name = ''TypeError'', message = ''Illegal constructor''\<rparr>"
    by (simp add: new_Blob_def legacy_env_def)
  have 2: "name \<lparr>name = ''TypeError'', message = ''Illegal constructor''\<rparr> = ''TypeError''"
    by simp
  have 3: "BlobBuilder ?env = None" "MSBlobBuilder ?env = None" "MozBlobBuilder ?env = None"
    "WebKitBlobBuilder ?env = None"
    by (simp_all add: legacy_env_def)
  show ?thesis
    by (rule createBlob_unsupported [OF 1 2 3])
qed

text \<open>
  Without a \<open>Blob\<close> global at all, the reference error of \<^verbatim>\<open>new Blob\<close> is not a
  type error and leaves \<open>createBlob\<close> at once, whatever builders exist.
\<close>

lemma createBlob_without_Blob_global:
  "Blob env = None \<Longrightarrow>
   createBlob env parts properties
     = Inl \<lparr>name = ''ReferenceError'', message = ''Blob is not defined''\<rparr>"
  by (simp add: createBlob_def new_Blob_def)

section \<open>Reading a binary object as a binary string\<close>

lemma file_api_binary_string_eq:
  "file_api_binary_string bs = arrayBufferToBinaryString bs"
  by (simp add: file_api_binary_string_def arrayBufferToBinaryString_map fromCharCode_def)

lemma blobToBinaryString_conforming:
  assumes "conforming_read env blob outcome"
  shows "blobToBinaryString env blob =
     (case outcome of
        ReadOk \<Rightarrow> Fulfilled (arrayBufferToBinaryString (bytes blob))
      | ReadFailed e \<Rightarrow> Rejected (ErrorEvent e))"
proof (cases "readAsBinaryString env")
  case None
  with assms have "readAsArrayBuffer env blob = file_api_events outcome (bytes blob)"
    by (simp add: conforming_read_def)
  with None show ?thesis
    by (simp add: blobToBinaryString_def run_reader_first_signal first_signal_file_api_events
        split: read_outcome.splits)
next
  case (Some read)
  with assms have "read blob = file_api_events outcome (file_api_binary_string (bytes blob))"
    by (simp add: conforming_read_def)
  with Some show ?thesis
    by (simp add: blobToBinaryString_def run_reader_first_signal first_signal_file_api_events
        file_api_binary_string_eq split: read_outcome.splits)
qed

lemma conforming_read_modern_env: "conforming_read modern_env blob ReadOk"
  by (simp add: conforming_read_def modern_env_def)

text \<open>
  Claim C5. With the text read mode, \<open>blobToBinaryString\<close> resolves with the text
  result of the read (the empty string when the result is absent); without it, with
  \<open>arrayBufferToBinaryString\<close> of the buffer result. On a conforming reader the two
  paths settle alike, and a completed read resolves with each byte of the object as
  one character.
\<close>

theorem blobToBinaryString_paths_agree:
  "(readAsBinaryString env = Some read \<longrightarrow>
      blobToBinaryString env blob
        = first_signal (\<lambda>result. case result of None \<Rightarrow> [] | Some s \<Rightarrow> s) (read blob))
   \<and> (readAsBinaryString env = None \<longrightarrow>
      blobToBinaryString env blob
        = first_signal
            (\<lambda>result. arrayBufferToBinaryString (case result of None \<Rightarrow> [] | Some b \<Rightarrow> b))
            (readAsArrayBuffer env blob))
   \<and> (conforming_read env blob outcome \<longrightarrow>
      blobToBinaryString (env\<lparr>readAsBinaryString := None\<rparr>) blob = blobToBinaryString env blob
      \<and> (outcome = ReadOk \<longrightarrow>
           blobToBinaryString env blob = Fulfilled (map fromCharCode (bytes blob))))"
proof (intro conjI impI)
  assume "readAsBinaryString env = Some read"
  then show "blobToBinaryString env blob
        = first_signal (\<lambda>result. case result of None \<Rightarrow> [] | Some s \<Rightarrow> s) (read blob)"
    by (simp add: blobToBinaryString_def run_reader_first_signal)
next
  assume "readAsBinaryString env = None"
  then show "blobToBinaryString env blob
        = first_signal
            (\<lambda>result. arrayBufferToBinaryString (case result of None \<Rightarrow> [] | Some b \<Rightarrow> b))
            (readAsArrayBuffer env blob)"
    by (simp add: blobToBinaryString_def run_reader_first_signal)
next
  assume c: "conforming_read env blob outcome"
  then have "conforming_read (env\<lparr>readAsBinaryString := None\<rparr>) blob outcome"
    by (simp add: conforming_read_def)
  then show "blobToBinaryString (env\<lparr>readAsBinaryString := None\<rparr>) blob
               = blobToBinaryString env blob"
    using c by (simp add: blobToBinaryString_conforming)
next
  assume "conforming_read env blob outcome" and "outcome = ReadOk"
  then show "blobToBinaryString env blob = Fulfilled (map fromCharCode (bytes blob))"
    by (simp add: blobToBinaryString_conforming arrayBufferToBinaryString_map)
qed

theorem blobToBinaryString_paths_agree_witness:
  "blobToBinaryString modern_env \<lparr>type = js ''text/plain'', bytes = [104, 255]\<rparr>
     = Fulfilled [104, 255]
   \<and> blobToBinaryString (modern_env\<lparr>readAsBinaryString := None\<rparr>)
        \<lparr>type = js ''text/plain'', bytes = [104, 255]\<rparr>
     = Fulfilled [104, 255]
   \<and> blobToBinaryString
        (modern_env\<lparr>readAsBinaryString := Some (\<lambda>b. [EvLoadStart, EvAbort, EvLoadEnd None])\<rparr>)
        \<lparr>type = js ''text/plain'', bytes = [104, 255]\<rparr>
     = Fulfilled []
   \<and> blobToBinaryString legacy_env \<lparr>type = js ''text/plain'', bytes = [104, 255]\<rparr>
     = Fulfilled [104, 255]"
proof -
  let ?blob = "\<lparr>type = js ''text/plain'', bytes = [104, 255]\<rparr>"
  let ?aborted =
    "modern_env\<lparr>readAsBinaryString := Some (\<lambda>b. [EvLoadStart, EvAbort, EvLoadEnd None])\<rparr>"
  have c: "conforming_read modern_env ?blob ReadOk"
    by (rule conforming_read_modern_env)
  have m: "map fromCharCode (bytes ?blob) = [104, 255]"
    by (simp add: fromCharCode_def)
  from c blobToBinaryString_paths_agree [of modern_env _ ?blob ReadOk]
  have a: "blobToBinaryString modern_env ?blob = Fulfilled [104, 255]"
    and b: "blobToBinaryString (modern_env\<lparr>readAsBinaryString := None\<rparr>) ?blob
              = Fulfilled [104, 255]"
    unfolding m by simp_all
  have "readAsBinaryString ?aborted = Some (\<lambda>b. [EvLoadStart, EvAbort, EvLoadEnd None])"
    by simp
  with blobToBinaryString_paths_agree
    [of ?aborted "\<lambda>b. [EvLoadStart, EvAbort, EvLoadEnd None]" ?blob]
  have d: "blobToBinaryString ?aborted ?blob = Fulfilled []"
    by simp
  have "readAsBinaryString legacy_env = None"
    and "readAsArrayBuffer legacy_env ?blob = file_api_events ReadOk [104, 255]"
    by (simp_all add: legacy_env_def)
  with blobToBinaryString_paths_agree [of legacy_env _ ?blob]
  have e: "blobToBinaryString legacy_env ?blob = Fulfilled [104, 255]"
    by (simp add: file_api_events_def arrayBufferToBinaryString_map fromCharCode_def)
  from a b d e show ?thesis by blast
qed

section \<open>The base64 codec decodes what it encodes\<close>

lemma unat_code_unit_of_nat: "k < 65536 \<Longrightarrow> unat (of_nat k :: code_unit) = k"
  by (simp add: unat_of_nat)

lemma unat_b64_char:
  "unat (b64_char n) =
     (if n < 26 then n + 65 else if n < 52 then n + 71 else if n < 62 then n - 4
      else if n = 62 then 43 else 47)"
  by (simp add: b64_char_def unat_code_unit_of_nat del: of_nat_add of_nat_diff)

lemma b64_index_b64_char:
  assumes "n < 64"
  shows "b64_index (b64_char n) = Some n"
proof -
  consider "n < 26" | "26 \<le> n" "n < 52" | "52 \<le> n" "n < 62" | "n = 62" | "n = 63"
    using assms by linarith
  then show ?thesis
    unfolding b64_index_def Let_def unat_b64_char by cases (simp_all, linarith)
qed

lemma whitespace_no_index: "is_ascii_whitespace c \<Longrightarrow> b64_index c = None"
  unfolding is_ascii_whitespace_def by (elim disjE) (simp_all add: b64_index_def)

lemma padding_no_index: "b64_index padding_char = None"
  by (simp add: b64_index_def padding_char_def)

lemma b64_index_not_whitespace: "b64_index c = Some n \<Longrightarrow> \<not> is_ascii_whitespace c"
  using whitespace_no_index [of c] by auto

lemma b64_index_not_padding: "b64_index c = Some n \<Longrightarrow> c \<noteq> padding_char"
  using padding_no_index by auto

lemma padding_not_whitespace: "\<not> is_ascii_whitespace padding_char"
  by (simp add: is_ascii_whitespace_def padding_char_def)

lemma hi_lo_div: "(l::nat) < k \<Longrightarrow> (h * k + l) div k = h"
  by simp

lemma hi_lo_mod: "(l::nat) < k \<Longrightarrow> (h * k + l) mod k = l"
  by simp

lemma sextet_arith:
  fixes x y z :: nat
  assumes "y < 256" and "z < 256"
  shows "x div 4 * 4 + (x mod 4 * 16 + y div 16) div 16 = x"
    and "(x mod 4 * 16 + y div 16) mod 16 * 16 + (y mod 16 * 4 + z div 64) div 4 = y"
    and "(y mod 16 * 4 + z div 64) mod 4 * 64 + z mod 64 = z"
    and "x div 4 * 4 + (x mod 4 * 16) div 16 = x"
    and "(x mod 4 * 16 + y div 16) mod 16 * 16 + (y mod 16 * 4) div 4 = y"
  using assms by (simp_all add: hi_lo_div hi_lo_mod)

lemma sextet_bounds:
  fixes x y z :: nat
  assumes "x < 256" and "y < 256" and "z < 256"
  shows "x div 4 < 64"
    and "x mod 4 * 16 + y div 16 < 64"
    and "y mod 16 * 4 + z div 64 < 64"
    and "z mod 64 < 64"
    and "x mod 4 * 16 < 64"
    and "y mod 16 * 4 < 64"
proof -
  have "x mod 4 < 4" "y mod 16 < 16" by simp_all
  moreover have "y div 16 < 16" "z div 64 < 4" using assms by simp_all
  ultimately show "x mod 4 * 16 + y div 16 < 64" "y mod 16 * 4 + z div 64 < 64"
    "x mod 4 * 16 < 64" "y mod 16 * 4 < 64"
    by linarith+
  show "x div 4 < 64" using assms by simp
  show "z mod 64 < 64" by simp
qed

lemma strip_padding_quad:
  assumes "c4 \<noteq> padding_char"
  shows "strip_padding (c1 # c2 # c3 # c4 # d) = c1 # c2 # c3 # c4 # strip_padding d"
proof (cases "length d mod 4 = 0 \<and> d \<noteq> [] \<and> last d = padding_char")
  case False
  then show ?thesis using assms by (auto simp add: strip_padding_def)
next
  case True
  then have "length d mod 4 = 0" and "length d \<noteq> 0" by simp_all
  then have "4 \<le> length d" by presburger
  then have "butlast d \<noteq> []" by (cases d rule: rev_cases) auto
  with True show ?thesis by (simp add: strip_padding_def)
qed

lemma atob_quad:
  assumes i: "b64_index c1 = Some n1" "b64_index c2 = Some n2"
             "b64_index c3 = Some n3" "b64_index c4 = Some n4"
    and y: "atob y = Inr r"
  shows "atob (c1 # c2 # c3 # c4 # y)
           = Inr (map fromCharCode (decode_sextets [n1, n2, n3, n4]) @ r)"
proof -
  define d where "d = strip_padding (filter (\<lambda>c. \<not> is_ascii_whitespace c) y)"
  from y have len: "length d mod 4 \<noteq> 1"
    by (auto simp add: atob_def d_def Let_def split: if_splits)
  from y len obtain ms where ms: "those (map b64_index d) = Some ms"
    and r: "r = map fromCharCode (decode_sextets ms)"
    by (auto simp add: atob_def d_def Let_def split: if_splits option.splits)
  have f: "filter (\<lambda>c. \<not> is_ascii_whitespace c) (c1 # c2 # c3 # c4 # y)
             = c1 # c2 # c3 # c4 # filter (\<lambda>c. \<not> is_ascii_whitespace c) y"
    using i by (simp add: b64_index_not_whitespace)
  have s: "strip_padding (filter (\<lambda>c. \<not> is_ascii_whitespace c) (c1 # c2 # c3 # c4 # y))
             = c1 # c2 # c3 # c4 # d"
    unfolding f d_def using i(4) by (simp add: strip_padding_quad b64_index_not_padding)
  have l: "length (c1 # c2 # c3 # c4 # d) mod 4 \<noteq> 1"
    using len by (simp add: mod_Suc)
  have t: "those (map b64_index (c1 # c2 # c3 # c4 # d)) = Some (n1 # n2 # n3 # n4 # ms)"
    using i ms by simp
  show ?thesis
    unfolding atob_def s Let_def using l t r by simp
qed

lemma atob_pad1:
  assumes i: "b64_index c1 = Some n1" "b64_index c2 = Some n2" "b64_index c3 = Some n3"
  shows "atob [c1, c2, c3, padding_char] = Inr (map fromCharCode (decode_sextets [n1, n2, n3]))"
proof -
  have "filter (\<lambda>c. \<not> is_ascii_whitespace c) [c1, c2, c3, padding_char]
          = [c1, c2, c3, padding_char]"
    using i by (simp add: b64_index_not_whitespace padding_not_whitespace)
  moreover have "strip_padding [c1, c2, c3, padding_char] = [c1, c2, c3]"
    using i(3) by (simp add: strip_padding_def b64_index_not_padding)
  ultimately show ?thesis using i by (simp add: atob_def)
qed

lemma atob_pad2:
  assumes i: "b64_index c1 = Some n1" "b64_index c2 = Some n2"
  shows "atob [c1, c2, padding_char, padding_char]
           = Inr (map fromCharCode (decode_sextets [n1, n2]))"
proof -
  have "filter (\<lambda>c. \<not> is_ascii_whitespace c) [c1, c2, padding_char, padding_char]
          = [c1, c2, padding_char, padding_char]"
    using i by (simp add: b64_index_not_whitespace padding_not_whitespace)
  moreover have "strip_padding [c1, c2, padding_char, padding_char] = [c1, c2]"
    by (simp add: strip_padding_def)
  ultimately show ?thesis using i by (simp add: atob_def)
qed

lemma byte_of_nat_unat: "(of_nat (unat a) :: byte) = a"
  by simp

lemma atob_base64_encode: "atob (base64_encode bs) = Inr (map fromCharCode bs)"
proof (induction bs rule: base64_encode.induct)
  case (1 a b c rest)
  note lt = unat_byte_less [of a] unat_byte_less [of b] unat_byte_less [of c]
  have "atob (base64_encode (a # b # c # rest))
          = Inr (map fromCharCode
                   (decode_sextets [unat a div 4, unat a mod 4 * 16 + unat b div 16,
                      unat b mod 16 * 4 + unat c div 64, unat c mod 64])
                 @ map fromCharCode rest)"
    unfolding base64_encode.simps append_Cons append_Nil
    by (rule atob_quad) (simp_all add: b64_index_b64_char sextet_bounds [OF lt] "1.IH")
  also have "decode_sextets [unat a div 4, unat a mod 4 * 16 + unat b div 16,
                      unat b mod 16 * 4 + unat c div 64, unat c mod 64] = [a, b, c]"
    by (simp only: decode_sextets.simps sextet_arith [OF lt(2) lt(3)] byte_of_nat_unat
        append_Cons append_Nil)
  finally show ?case by simp
next
  case (2 a b)
  note lt = unat_byte_less [of a] unat_byte_less [of b]
  have "atob (base64_encode [a, b])
          = Inr (map fromCharCode
                   (decode_sextets [unat a div 4, unat a mod 4 * 16 + unat b div 16,
                      unat b mod 16 * 4]))"
    unfolding base64_encode.simps
    by (rule atob_pad1) (simp_all add: b64_index_b64_char sextet_bounds [OF lt lt(2)])
  also have "decode_sextets [unat a div 4, unat a mod 4 * 16 + unat b div 16,
                      unat b mod 16 * 4] = [a, b]"
    by (simp only: decode_sextets.simps sextet_arith [OF lt(2) lt(2)] byte_of_nat_unat)
  finally show ?case by simp
next
  case (3 a)
  note lt = unat_byte_less [of a]
  have "atob (base64_encode [a])
          = Inr (map fromCharCode (decode_sextets [unat a div 4, unat a mod 4 * 16]))"
    unfolding base64_encode.simps
    by (rule atob_pad2) (simp_all add: b64_index_b64_char sextet_bounds [OF lt lt lt])
  also have "decode_sextets [unat a div 4, unat a mod 4 * 16] = [a]"
    by (simp only: decode_sextets.simps sextet_arith [OF lt lt] byte_of_nat_unat)
  finally show ?case by simp
next
  case 4
  show ?case by (simp add: atob_def strip_padding_def)
qed

lemma btoa_arrayBufferToBinaryString:
  "btoa (arrayBufferToBinaryString bs) = Inr (base64_encode bs)"
proof -
  have "map toUint8 (arrayBufferToBinaryString bs) = bs"
    by (simp add: arrayBufferToBinaryString_map o_def toUint8_fromCharCode)
  then show ?thesis
    by (simp add: btoa_def is_binary_string_arrayBufferToBinaryString)
qed

section \<open>Data URLs\<close>

lemma blobToDataURL_conforming:
  assumes "conforming_read env blob outcome"
  shows "blobToDataURL env blob =
     (case outcome of
        ReadOk \<Rightarrow>
          Fulfilled (js ''data:'' @ type blob @ js '';base64,'' @ base64_encode (bytes blob))
      | ReadFailed e \<Rightarrow> Rejected (ErrorEvent e))"
  using assms
  by (cases outcome)
    (simp_all add: blobToDataURL_def blobToBase64String_def promise_then_def
      blobToBinaryString_conforming btoa_arrayBufferToBinaryString)

text \<open>
  Claim C4. On a conforming reader, a completed read makes \<open>blobToDataURL\<close> resolve
  with exactly \<open>data:\<close>, the object's own type tag, \<open>;base64,\<close> and the base64 text of
  the object's bytes; and whenever \<open>blobToDataURL\<close> resolves, it is with that string.
  The type is the \<open>type\<close> field of the object; the events of the read carry none.
\<close>

theorem blobToDataURL_format:
  "conforming_read env blob outcome \<Longrightarrow>
   (outcome = ReadOk \<longrightarrow>
      blobToDataURL env blob
        = Fulfilled (js ''data:'' @ type blob @ js '';base64,'' @ base64_encode (bytes blob)))
   \<and> (\<forall>url. blobToDataURL env blob = Fulfilled url \<longrightarrow>
          url = js ''data:'' @ type blob @ js '';base64,'' @ base64_encode (bytes blob))"
  by (cases outcome)
    (simp_all add: blobToDataURL_def blobToBase64String_def promise_then_def
      blobToBinaryString_conforming btoa_arrayBufferToBinaryString)

theorem blobToDataURL_format_witness:
  "conforming_read modern_env \<lparr>type = js ''text/plain'', bytes = [104, 105]\<rparr> ReadOk
   \<and> blobToDataURL modern_env \<lparr>type = js ''text/plain'', bytes = [104, 105]\<rparr>
       = Fulfilled (js ''data:text/plain;base64,aGk='')"
proof -
  let ?blob = "\<lparr>type = js ''text/plain'', bytes = [104, 105]\<rparr>"
  have c: "conforming_read modern_env ?blob ReadOk"
    by (rule conforming_read_modern_env)
  have e: "js ''data:'' @ type ?blob @ js '';base64,'' @ base64_encode (bytes ?blob)
             = js ''data:text/plain;base64,aGk=''"
    by (simp add: js_def b64_char_def padding_char_def)
  from blobToDataURL_format [OF c]
  have "blobToDataURL modern_env ?blob
          = Fulfilled (js ''data:'' @ type ?blob @ js '';base64,'' @ base64_encode (bytes ?blob))"
    by blast
  with c show ?thesis unfolding e by simp
qed

lemma match_data_type_data_url:
  assumes "t \<noteq> []" and "semicolon \<notin> set t"
  shows "match_data_type (js ''data:'' @ t @ js '';base64,'' @ rest) = Some t"
proof -
  have tw: "takeWhile (\<lambda>x. x \<noteq> semicolon) (t @ semicolon # r) = t" for r
    using assms(2) by (induction t) auto
  have e: "js ''data:'' @ t @ js '';base64,'' @ rest
          = 100 # (97 # 116 # 97 # 58 # t @ semicolon # js ''base64,'' @ rest)"
    by (simp add: js_def semicolon_def)
  have "match_data_type (100 # (97 # 116 # 97 # 58 # t @ semicolon # r)) = Some t" for r
    using assms(1) by (simp add: js_def tw)
  then show ?thesis
    unfolding e .
qed

lemma replace_to_comma_data_url:
  assumes "comma \<notin> set t"
  shows "replace_to_comma (js ''data:'' @ t @ js '';base64,'' @ rest) = rest"
proof -
  define p where "p = js ''data:'' @ t @ js '';base64''"
  have p: "comma \<notin> set p" "p \<noteq> []"
    using assms by (auto simp add: p_def js_def comma_def)
  have e: "js ''data:'' @ t @ js '';base64,'' @ rest = p @ comma # rest"
    by (simp add: p_def js_def comma_def)
  have "takeWhile (\<lambda>x. x \<noteq> comma) (p @ comma # rest) = p"
    using p(1) by (induction p) auto
  moreover have "dropWhile (\<lambda>x. x \<noteq> comma) (p @ comma # rest) = comma # rest"
    using p(1) by (induction p) auto
  ultimately show ?thesis
    unfolding e using p(2) by (simp add: replace_to_comma_def)
qed

lemma normalize_type_normal: "normal_type t \<Longrightarrow> normalize_type (Some t) = t"
  by (auto simp add: normal_type_def normalize_type_def list_all_iff ascii_lowercase_def
      intro!: map_idI)

lemma createBlob_canonical:
  assumes "Blob env = Some file_api_Blob"
  shows "createBlob env (Some [BufferPart b]) (Properties (Some t))
           = Inr \<lparr>type = normalize_type (Some t), bytes = b\<rparr>"
  using assms
  by (simp add: createBlob_def new_Blob_def file_api_Blob_def parts_or_empty_def
      properties_type_def)

lemma dataURLToBlob_data_url:
  assumes "Blob env = Some file_api_Blob"
    and "normal_type t" and "t \<noteq> []" and "semicolon \<notin> set t" and "comma \<notin> set t"
  shows "dataURLToBlob env (js ''data:'' @ t @ js '';base64,'' @ base64_encode b)
           = Inr \<lparr>type = t, bytes = b\<rparr>"
proof -
  have "binaryStringToArrayBuffer (map fromCharCode b) = b"
    by (simp add: binaryStringToArrayBuffer_map o_def toUint8_fromCharCode)
  then show ?thesis
    using assms
    by (simp add: dataURLToBlob_def match_data_type_data_url replace_to_comma_data_url
        atob_base64_encode createBlob_canonical normalize_type_normal)
qed

lemma match_hello: "match_data_type (js ''data:text/plain;base64,aGVsbG8='') = Some (js ''text/plain'')"
  by (simp add: js_def semicolon_def)

lemma replace_hello: "replace_to_comma (js ''data:text/plain;base64,aGVsbG8='') = js ''aGVsbG8=''"
  by (simp add: js_def replace_to_comma_def comma_def)

lemma atob_hello: "atob (js ''aGVsbG8='') = Inr [104, 101, 108, 108, 111]"
  by (simp add: js_def atob_def is_ascii_whitespace_def strip_padding_def padding_char_def
      b64_index_def fromCharCode_def)

lemma b2ab_hello: "binaryStringToArrayBuffer [104, 101, 108, 108, 111] = [0x68, 0x65, 0x6C, 0x6C, 0x6F]"
  by (simp add: binaryStringToArrayBuffer_map toUint8_def)

text \<open>
  Claim C7. Where the canonical constructor exists,
  \<^verbatim>\<open>dataURLToBlob('data:text/plain;base64,aGVsbG8=')\<close> is a binary object with
  content-type \<open>text/plain\<close> whose bytes are the five ASCII bytes of \<open>hello\<close>.
\<close>

theorem dataURLToBlob_hello:
  "Blob env = Some file_api_Blob \<Longrightarrow>
   dataURLToBlob env (js ''data:text/plain;base64,aGVsbG8='')
     = Inr \<lparr>type = js ''text/plain'', bytes = [0x68, 0x65, 0x6C, 0x6C, 0x6F]\<rparr>"
proof -
  assume c: "Blob env = Some file_api_Blob"
  have n: "normalize_type (Some (js ''text/plain'')) = js ''text/plain''"
    by (rule normalize_type_normal) (simp add: normal_type_def js_def)
  show ?thesis
    by (simp add: dataURLToBlob_def match_hello replace_hello atob_hello b2ab_hello
        createBlob_canonical [OF c] n)
qed

theorem dataURLToBlob_hello_witness:
  "Blob modern_env = Some file_api_Blob \<and>
   dataURLToBlob modern_env (js ''data:text/plain;base64,aGVsbG8='')
     = Inr \<lparr>type = js ''text/plain'', bytes = [0x68, 0x65, 0x6C, 0x6C, 0x6F]\<rparr>"
proof -
  have c: "Blob modern_env = Some file_api_Blob"
    by (simp add: modern_env_def)
  from c dataURLToBlob_hello [OF c] show ?thesis by simp
qed

text \<open>
  Claim C2, amended. \<open>dataURLToBlob\<close> after \<open>blobToDataURL\<close> gives back a binary
  object with the same content-type and the same bytes for every object whose
  content-type is not empty and has neither \<open>;\<close> nor \<open>,\<close> in it (the type being in the
  normal form every host object has), on a host with the canonical constructor and
  a completed conforming read.
\<close>

theorem data_url_round_trip:
  assumes "conforming_read env blob ReadOk"
    and "Blob env = Some file_api_Blob"
    and "normal_type (type blob)"
    and "type blob \<noteq> []"
    and "semicolon \<notin> set (type blob)"
    and "comma \<notin> set (type blob)"
  shows "promise_then (blobToDataURL env blob) (dataURLToBlob env) = Fulfilled blob"
proof -
  have "blobToDataURL env blob
          = Fulfilled (js ''data:'' @ type blob @ js '';base64,'' @ base64_encode (bytes blob))"
    using assms(1) by (simp add: blobToDataURL_conforming)
  moreover have "dataURLToBlob env
       (js ''data:'' @ type blob @ js '';base64,'' @ base64_encode (bytes blob)) = Inr blob"
    using assms(2-6) by (simp add: dataURLToBlob_data_url)
  ultimately show ?thesis by (simp add: promise_then_def)
qed

theorem data_url_round_trip_witness:
  "promise_then
     (blobToDataURL modern_env \<lparr>type = js ''text/plain'', bytes = [104, 105]\<rparr>)
     (dataURLToBlob modern_env)
   = Fulfilled \<lparr>type = js ''text/plain'', bytes = [104, 105]\<rparr>"
proof -
  have "Blob modern_env = Some file_api_Blob"
    by (simp add: modern_env_def)
  moreover have "normal_type (js ''text/plain'')"
    by (simp add: normal_type_def js_def)
  moreover have "semicolon \<notin> set (js ''text/plain'')" "comma \<notin> set (js ''text/plain'')"
    by (simp_all add: js_def semicolon_def comma_def)
  moreover have "js ''text/plain'' \<noteq> []"
    by (simp add: js_def)
  ultimately show ?thesis
    using data_url_round_trip
      [of modern_env "\<lparr>type = js ''text/plain'', bytes = [104, 105]\<rparr>"]
      conforming_read_modern_env
    by simp
qed

text \<open>
  As stated, for every content-type, the round trip fails: an object with the default
  empty content-type gives \<open>data:;base64,...\<close>, the match finds no type, and
  \<open>dataURLToBlob\<close> throws.
\<close>

theorem data_url_round_trip_counterexample:
  "promise_then (blobToDataURL modern_env \<lparr>type = [], bytes = [104, 105]\<rparr>)
     (dataURLToBlob modern_env)
   = Rejected (Thrown \<lparr>name = ''TypeError'', message = ''Cannot read properties of null''\<rparr>)
   \<and> promise_then (blobToDataURL modern_env \<lparr>type = [], bytes = [104, 105]\<rparr>)
        (dataURLToBlob modern_env)
     \<noteq> Fulfilled \<lparr>type = [], bytes = [104, 105]\<rparr>"
proof -
  have u: "blobToDataURL modern_env \<lparr>type = [], bytes = [104, 105]\<rparr>
          = Fulfilled (js ''data:;base64,aGk='')"
    by (simp add: blobToDataURL_conforming [OF conforming_read_modern_env]
        js_def b64_char_def padding_char_def)
  have m: "match_data_type (js ''data:;base64,aGk='') = None"
    by (simp add: js_def semicolon_def)
  show ?thesis
    unfolding u by (simp add: promise_then_def dataURLToBlob_def m)
qed

text \<open>
  The other two conditions are needed as well: a type is cut at its first \<open>;\<close>, and a
  \<open>,\<close> in the type makes the payload start inside the type.
\<close>

lemma data_url_type_cut_at_semicolon:
  "promise_then
     (blobToDataURL modern_env \<lparr>type = js ''text/plain;charset=utf-8'', bytes = [104, 105]\<rparr>)
     (dataURLToBlob modern_env)
   = Fulfilled \<lparr>type = js ''text/plain'', bytes = [104, 105]\<rparr>"
proof -
  have u: "blobToDataURL modern_env
             \<lparr>type = js ''text/plain;charset=utf-8'', bytes = [104, 105]\<rparr>
          = Fulfilled (js ''data:text/plain;charset=utf-8;base64,aGk='')"
    by (simp add: blobToDataURL_conforming [OF conforming_read_modern_env]
        js_def b64_char_def padding_char_def)
  have m: "match_data_type (js ''data:text/plain;charset=utf-8;base64,aGk='')
             = Some (js ''text/plain'')"
    by (simp add: js_def semicolon_def)
  have r: "replace_to_comma (js ''data:text/plain;charset=utf-8;base64,aGk='') = js ''aGk=''"
    by (simp add: js_def replace_to_comma_def comma_def)
  have a: "atob (js ''aGk='') = Inr [104, 105]"
    by (simp add: js_def atob_def is_ascii_whitespace_def strip_padding_def padding_char_def
        b64_index_def fromCharCode_def)
  have b: "binaryStringToArrayBuffer [104, 105] = [104, 105]"
    by (simp add: binaryStringToArrayBuffer_map toUint8_def)
  have n: "normalize_type (Some (js ''text/plain'')) = js ''text/plain''"
    by (rule normalize_type_normal) (simp add: normal_type_def js_def)
  have c: "Blob modern_env = Some file_api_Blob"
    by (simp add: modern_env_def)
  show ?thesis
    unfolding u
    by (simp add: promise_then_def dataURLToBlob_def m r a b createBlob_canonical [OF c] n)
qed

lemma data_url_payload_cut_at_comma:
  "promise_then (blobToDataURL modern_env \<lparr>type = js ''a,b'', bytes = [104, 105]\<rparr>)
     (dataURLToBlob modern_env)
   = Rejected (Thrown invalid_character_error)"
proof -
  have u: "blobToDataURL modern_env \<lparr>type = js ''a,b'', bytes = [104, 105]\<rparr>
          = Fulfilled (js ''data:a,b;base64,aGk='')"
    by (simp add: blobToDataURL_conforming [OF conforming_read_modern_env]
        js_def b64_char_def padding_char_def)
  have m: "match_data_type (js ''data:a,b;base64,aGk='') = Some (js ''a,b'')"
    by (simp add: js_def semicolon_def)
  have r: "replace_to_comma (js ''data:a,b;base64,aGk='') = js ''b;base64,aGk=''"
    by (simp add: js_def replace_to_comma_def comma_def)
  have a: "atob (js ''b;base64,aGk='') = Inl invalid_character_error"
    by (simp add: js_def atob_def is_ascii_whitespace_def strip_padding_def padding_char_def
        b64_index_def)
  show ?thesis
    unfolding u by (simp add: promise_then_def dataURLToBlob_def m r a)
qed

section \<open>Canvas to binary object\<close>

lemma foldl_resolve_settled:
  "p \<noteq> Pending \<Longrightarrow> foldl (\<lambda>p v. resolve v p) p calls = p"
proof (induction calls)
  case Nil
  then show ?case by simp
next
  case (Cons v vs)
  have "resolve v p = p"
    using Cons.prems by (cases p) (simp_all add: resolve_def)
  then show ?case using Cons by simp
qed

lemma foldl_resolve_first:
  "foldl (\<lambda>p v. resolve v p) Pending calls
     = (case calls of [] \<Rightarrow> Pending | v # _ \<Rightarrow> Fulfilled v)"
proof (cases calls)
  case Nil
  then show ?thesis by simp
next
  case (Cons v vs)
  have "resolve v Pending = Fulfilled v" by (simp add: resolve_def)
  then show ?thesis using Cons by (simp add: foldl_resolve_settled)
qed

text \<open>
  Claim C8, amended. A canvas with \<open>toBlob\<close>: \<open>canvasToBlob\<close> returns a promise. When
  the call of the primitive returns, the promise is the one its completion callback
  resolves, the first delivery settling it and no delivery rejecting it; when the
  call of the primitive throws, the promise is rejected with the thrown error. A
  canvas without \<open>toBlob\<close>: \<open>canvasToBlob\<close> evaluates \<open>dataURLToBlob\<close> on
  \<open>canvas.toDataURL(type, quality)\<close>, with the same type and quality arguments, and
  returns a promise already resolved with that object; an error thrown by
  \<open>toDataURL\<close> or by \<open>dataURLToBlob\<close> leaves \<open>canvasToBlob\<close> as a synchronous throw.
\<close>

theorem canvasToBlob_paths:
  "(toBlob canvas = Some primitive \<longrightarrow>
      canvasToBlob env canvas t quality
        = Inr (case primitive t quality of
                 Inl e \<Rightarrow> Rejected (Thrown e)
               | Inr calls \<Rightarrow> (case calls of [] \<Rightarrow> Pending | v # _ \<Rightarrow> Fulfilled v)))
   \<and> (toBlob canvas = None \<longrightarrow>
      canvasToBlob env canvas t quality
        = (case toDataURL canvas t quality of
             Inl e \<Rightarrow> Inl e
           | Inr dataURL \<Rightarrow>
               (case dataURLToBlob env dataURL of
                  Inl e \<Rightarrow> Inl e
                | Inr blob \<Rightarrow> Inr (Fulfilled (Some blob)))))"
proof (intro conjI impI)
  assume "toBlob canvas = Some primitive"
  then show "canvasToBlob env canvas t quality
        = Inr (case primitive t quality of
                 Inl e \<Rightarrow> Rejected (Thrown e)
               | Inr calls \<Rightarrow> (case calls of [] \<Rightarrow> Pending | v # _ \<Rightarrow> Fulfilled v))"
    by (cases "primitive t quality") (simp_all add: canvasToBlob_def foldl_resolve_first)
next
  assume "toBlob canvas = None"
  then show "canvasToBlob env canvas t quality
        = (case toDataURL canvas t quality of
             Inl e \<Rightarrow> Inl e
           | Inr dataURL \<Rightarrow>
               (case dataURLToBlob env dataURL of
                  Inl e \<Rightarrow> Inl e
                | Inr blob \<Rightarrow> Inr (Fulfilled (Some blob))))"
    by (simp add: canvasToBlob_def)
qed

theorem canvasToBlob_paths_witness:
  "canvasToBlob modern_env
     \<lparr>toBlob = Some (\<lambda>t q. Inr [Some \<lparr>type = js ''image/png'', bytes = [137, 80]\<rparr>, None]),
      toDataURL = (\<lambda>t q. Inr [])\<rparr> (Some (js ''image/png'')) ()
   = Inr (Fulfilled (Some \<lparr>type = js ''image/png'', bytes = [137, 80]\<rparr>))
   \<and> canvasToBlob modern_env
     \<lparr>toBlob = Some (\<lambda>t q. Inr [None]), toDataURL = (\<lambda>t q. Inr [])\<rparr>
     (Some (js ''image/png'')) ()
   = Inr (Fulfilled None)
   \<and> canvasToBlob modern_env
     \<lparr>toBlob = None,
      toDataURL = (\<lambda>t q. Inr (js ''data:'' @ js ''image/png'' @ js '';base64,''
                                @ base64_encode [137, 80]))\<rparr> (Some (js ''image/png'')) ()
   = Inr (Fulfilled (Some \<lparr>type = js ''image/png'', bytes = [137, 80]\<rparr>))"
proof -
  let ?png = "\<lparr>type = js ''image/png'', bytes = [137, 80]\<rparr>"
  let ?c1 = "\<lparr>toBlob = Some (\<lambda>t q. Inr [Some ?png, None]),
      toDataURL = (\<lambda>t (q::unit). Inr [])\<rparr>"
  let ?c2 = "\<lparr>toBlob = Some (\<lambda>t q. Inr [None :: jsblob option]),
      toDataURL = (\<lambda>t (q::unit). Inr [])\<rparr>"
  let ?c3 = "\<lparr>toBlob = None,
      toDataURL = (\<lambda>t (q::unit). Inr (js ''data:'' @ js ''image/png'' @ js '';base64,''
                                @ base64_encode [137, 80]))\<rparr>"
  let ?t = "Some (js ''image/png'')"
  have "toBlob ?c1 = Some (\<lambda>t q. Inr [Some ?png, None])" by simp
  with canvasToBlob_paths [of ?c1 "\<lambda>t q. Inr [Some ?png, None]" modern_env ?t "()"]
  have a: "canvasToBlob modern_env ?c1 ?t () = Inr (Fulfilled (Some ?png))"
    by simp
  have "toBlob ?c2 = Some (\<lambda>t q. Inr [None])" by simp
  with canvasToBlob_paths [of ?c2 "\<lambda>t q. Inr [None]" modern_env ?t "()"]
  have b: "canvasToBlob modern_env ?c2 ?t () = Inr (Fulfilled None)"
    by simp
  have d: "dataURLToBlob modern_env
             (js ''data:'' @ js ''image/png'' @ js '';base64,'' @ base64_encode [137, 80])
           = Inr ?png"
    by (rule dataURLToBlob_data_url)
      (simp_all add: modern_env_def normal_type_def js_def semicolon_def comma_def)
  have "toBlob ?c3 = None" by simp
  with canvasToBlob_paths [of ?c3 _ modern_env ?t "()"]
  have c: "canvasToBlob modern_env ?c3 ?t () = Inr (Fulfilled (Some ?png))"
    by (simp add: d del: base64_encode.simps)
  from a b c show ?thesis by blast
qed

text \<open>
  As stated, with no failure path for any canvas that has \<open>toBlob\<close>, the claim fails:
  on a canvas that is not origin-clean the call of \<open>toBlob\<close> throws inside the
  promise's executor, and the promise that \<open>canvasToBlob\<close> returns is rejected.
\<close>

theorem canvasToBlob_failure_path_counterexample:
  "toBlob tainted_canvas \<noteq> None
   \<and> canvasToBlob modern_env tainted_canvas (Some (js ''image/png'')) ()
       = Inr (Rejected (Thrown security_error))"
  by (simp add: canvasToBlob_def tainted_canvas_def)

text \<open>
  Without \<open>toBlob\<close> such a canvas makes \<open>canvasToBlob\<close> throw before any promise
  exists.
\<close>

lemma canvasToBlob_fallback_throws:
  "canvasToBlob modern_env tainted_canvas_without_toBlob (Some (js ''image/png'')) ()
     = Inl security_error"
  by (simp add: canvasToBlob_def tainted_canvas_without_toBlob_def)

end
